theory Spec2Isabelle
  imports Main
begin

section \<open>Data model (movies/models.py)\<close>

text \<open>
  A \<open>datetime\<close> is an integer count of microseconds since the epoch, the resolution of
  Python's \<open>datetime\<close>; a \<open>timedelta\<close> is a number of microseconds. The handlers read
  \<open>timezone.now()\<close> several times while serving one request; as in the operations of the
  specification, which take \<open>now\<close> as an argument, the model hands one instant to every
  read of one request.
\<close>

definition timedelta_seconds :: "int \<Rightarrow> int" where
  "timedelta_seconds n = n * 1000000"

definition timedelta_minutes :: "int \<Rightarrow> int" where
  "timedelta_minutes n = n * 60000000"

definition timedelta_hours :: "int \<Rightarrow> int" where
  "timedelta_hours n = n * 3600000000"

text \<open>\<open>Booking.STATUS_CHOICES\<close>.\<close>

datatype booking_status = Booked | Cancelled | Expired

text \<open>
  A row of \<open>Show\<close>. The primary key \<open>id\<close> is \<open>show_pk\<close>; \<open>movie_id\<close> is the foreign key
  to the movie; the price is kept in hundredths (a decimal with two places).
\<close>

record Show =
  show_pk :: nat
  movie_id :: nat
  screen_name :: string
  date_time :: int
  total_seats :: int
  price :: int
  is_active :: bool

text \<open>
  A \<open>Booking\<close> instance. \<open>pk\<close> is the primary key \<open>id\<close>, \<open>None\<close> on an instance that was
  never saved; \<open>user_id\<close> and \<open>show_id\<close> are the two foreign keys. \<open>created_at\<close> is an
  \<open>auto_now_add\<close> field: the model fills it when the instance is built, which no check in
  between reads.
\<close>

record Booking =
  pk :: "nat option"
  user_id :: nat
  show_id :: nat
  seat_number :: int
  status :: booking_status
  created_at :: int
  cancelled_at :: "int option"
  expires_at :: "int option"
  booking_reference :: string
  booking_notes :: "string option"

text \<open>The two tables the reservation code reads and writes, rows in insertion order.\<close>

record database =
  Show_objects :: "Show list"
  Booking_objects :: "Booking list"

section \<open>Queries\<close>

text \<open>\<open>Booking.objects.filter(show=..., seat_number=..., status='booked')\<close>.\<close>

definition booked_for_seat :: "Booking list \<Rightarrow> nat \<Rightarrow> int \<Rightarrow> Booking list" where
  "booked_for_seat rows s n =
     filter (\<lambda>r. show_id r = s \<and> seat_number r = n \<and> status r = Booked) rows"

text \<open>\<open>Booking.objects.filter(user=..., show=..., status='booked')\<close>.\<close>

definition booked_for_user :: "Booking list \<Rightarrow> nat \<Rightarrow> nat \<Rightarrow> Booking list" where
  "booked_for_user rows u s =
     filter (\<lambda>r. user_id r = u \<and> show_id r = s \<and> status r = Booked) rows"

text \<open>
  \<open>.exclude(id=self.id)\<close>: with \<open>self.id\<close> equal to \<open>None\<close> the clause excludes no row.
\<close>

definition exclude_id :: "nat option \<Rightarrow> Booking list \<Rightarrow> Booking list" where
  "exclude_id i rows =
     (case i of None \<Rightarrow> rows | Some k \<Rightarrow> filter (\<lambda>r. pk r \<noteq> Some k) rows)"

text \<open>
  \<open>.first()\<close> on a \<open>Booking\<close> queryset: \<open>Meta.ordering\<close> is \<open>['-created_at']\<close>, so the row
  with the greatest \<open>created_at\<close>; among rows created at the same instant the store's
  choice is not determined, the model takes the earliest in table order.
\<close>

fun first_qs :: "Booking list \<Rightarrow> Booking option" where
  "first_qs [] = None"
| "first_qs (r # rs) =
     (case first_qs rs of
        None \<Rightarrow> Some r
      | Some r' \<Rightarrow> if created_at r < created_at r' then Some r' else Some r)"

text \<open>\<open>Show.objects.get(id=show_id)\<close> and \<open>Booking.objects.get(id=booking_id)\<close>.\<close>

definition get_show :: "database \<Rightarrow> nat \<Rightarrow> Show option" where
  "get_show db i = find (\<lambda>s. show_pk s = i) (Show_objects db)"

definition get_booking :: "database \<Rightarrow> nat \<Rightarrow> Booking option" where
  "get_booking db i = find (\<lambda>r. pk r = Some i) (Booking_objects db)"

section \<open>Derived properties of the models\<close>

definition available_seats :: "Show \<Rightarrow> Booking list \<Rightarrow> int" where
  "available_seats sh rows =
     total_seats sh - int (length (filter (\<lambda>r. show_id r = show_pk sh \<and> status r = Booked) rows))"

definition is_bookable :: "Show \<Rightarrow> int \<Rightarrow> Booking list \<Rightarrow> bool" where
  "is_bookable sh now rows =
     (is_active sh \<and> now < date_time sh - timedelta_minutes 30 \<and> 0 < available_seats sh rows)"

definition is_cancellable :: "Booking \<Rightarrow> Show \<Rightarrow> int \<Rightarrow> bool" where
  "is_cancellable b sh now =
     (if status b \<noteq> Booked then False else now < date_time sh - timedelta_hours 2)"

definition is_expired :: "Booking \<Rightarrow> Show \<Rightarrow> int \<Rightarrow> bool" where
  "is_expired b sh now = (status b = Booked \<and> date_time sh < now)"

section \<open>Saving a booking (Booking.save, Booking.clean)\<close>

text \<open>
  The exceptions that can leave a handler. The views catch none of them and the
  configured exception handler of the REST framework maps none of them to a response, so
  each one ends the request as a server error.
\<close>

datatype validation_error =
    Seat_number_min
  | Seat_number_exceeds_total
  | Show_in_past
  | Seat_is_already_booked
  | Booking_reference_exists
  | Cannot_be_cancelled
  | Screen_name_blank
  | Screen_name_too_long
  | Date_time_not_future
  | Total_seats_below_1
  | Total_seats_above_1000
  | Price_too_many_digits
  | Screen_name_whitespace
  | Screen_is_already_booked
  | Screen_date_time_not_unique

datatype exn = ValidationError "validation_error list" | IntegrityError | DoesNotExist | OverflowError

text \<open>
  \<open>generate_booking_reference\<close>: \<open>BK\<close> followed by the first eight characters of a fresh
  \<open>uuid4\<close>, in upper case. The random draw is an input of the model: \<open>u\<close> is
  \<open>str(uuid.uuid4()).upper()\<close>.
\<close>

definition generate_booking_reference :: "string \<Rightarrow> string" where
  "generate_booking_reference u = ''BK'' @ take 8 u"

text \<open>The field validators \<open>full_clean\<close> runs: \<open>MinValueValidator(1)\<close> on the seat number.\<close>

definition clean_fields :: "Booking \<Rightarrow> validation_error list" where
  "clean_fields b = (if seat_number b < 1 then [Seat_number_min] else [])"

text \<open>\<open>Booking.clean\<close>: the first check that fails raises.\<close>

definition Booking_clean :: "Booking \<Rightarrow> Show \<Rightarrow> int \<Rightarrow> Booking list \<Rightarrow> validation_error list" where
  "Booking_clean b sh now rows =
     (if seat_number b \<noteq> 0 \<and> total_seats sh < seat_number b then [Seat_number_exceeds_total]
      else if date_time sh \<le> now then [Show_in_past]
      else if seat_number b \<noteq> 0 \<and> status b = Booked
              \<and> exclude_id (pk b) (booked_for_seat rows (show_id b) (seat_number b)) \<noteq> []
           then [Seat_is_already_booked]
      else [])"

text \<open>\<open>validate_unique\<close>: \<open>booking_reference\<close> is declared \<open>unique=True\<close>.\<close>

definition validate_unique :: "Booking \<Rightarrow> Booking list \<Rightarrow> validation_error list" where
  "validate_unique b rows =
     (if filter (\<lambda>r. booking_reference r = booking_reference b) (exclude_id (pk b) rows) \<noteq> []
      then [Booking_reference_exists] else [])"

text \<open>
  \<open>full_clean\<close> collects the errors of the three steps and raises when there is one.
  That the rows of the two foreign keys exist is not checked again here: every caller
  passes a user and a show it has just read. The ranges of the store's integer columns are
  not modelled. The constraint \<open>unique_active_booking_per_seat\<close> is validated last and
  only when neither \<open>show\<close> nor \<open>seat_number\<close> has an error yet; it asks what the last
  check of \<open>clean\<close> asks of the same rows, so it never adds an error and is left out
  here. It is enforced again by the store, in \<open>integrity_violation\<close>.
\<close>

definition full_clean :: "Booking \<Rightarrow> Show \<Rightarrow> int \<Rightarrow> Booking list \<Rightarrow> validation_error list" where
  "full_clean b sh now rows = clean_fields b @ Booking_clean b sh now rows @ validate_unique b rows"

text \<open>
  The store's own checks at write time: the unique index on \<open>booking_reference\<close> and the
  partial unique index \<open>unique_active_booking_per_seat\<close> on \<open>(show, seat_number)\<close> where
  \<open>status = 'booked'\<close>.
\<close>

definition integrity_violation :: "Booking \<Rightarrow> Booking list \<Rightarrow> bool" where
  "integrity_violation b rows =
     (if filter (\<lambda>r. booking_reference r = booking_reference b) (exclude_id (pk b) rows) \<noteq> []
      then True
      else if status b = Booked
      then exclude_id (pk b) (booked_for_seat rows (show_id b) (seat_number b)) \<noteq> []
      else False)"

text \<open>The key the store gives a new row: one more than the greatest key in the table.\<close>

definition next_pk :: "Booking list \<Rightarrow> nat" where
  "next_pk rows = Suc (fold (\<lambda>r m. case pk r of None \<Rightarrow> m | Some k \<Rightarrow> max k m) rows 0)"

text \<open>
  \<open>models.Model.save\<close>: an instance without key is inserted; an instance with a key
  updates its row, and is inserted when no row has the key.
\<close>

definition db_save :: "Booking \<Rightarrow> Booking list \<Rightarrow> exn + (Booking \<times> Booking list)" where
  "db_save b rows =
     (if integrity_violation b rows then Inl IntegrityError
      else case pk b of
             None \<Rightarrow> (let b' = b\<lparr>pk := Some (next_pk rows)\<rparr> in Inr (b', rows @ [b']))
           | Some k \<Rightarrow>
               if filter (\<lambda>r. pk r = Some k) rows = [] then Inr (b, rows @ [b])
               else Inr (b, map (\<lambda>r. if pk r = Some k then b else r) rows))"

text \<open>
  \<open>Booking.save\<close>; \<open>sh\<close> is \<open>self.show\<close>, \<open>u\<close> the draw for a missing reference.
  \<open>save_defaults\<close> is the three assignments \<open>save\<close> makes before it validates.
\<close>

definition save_defaults :: "Booking \<Rightarrow> Show \<Rightarrow> int \<Rightarrow> string \<Rightarrow> Booking" where
  "save_defaults b sh now u =
     (let b1 = (if booking_reference b = [] then b\<lparr>booking_reference := generate_booking_reference u\<rparr> else b);
          b2 = (if status b1 = Cancelled \<and> cancelled_at b1 = None then b1\<lparr>cancelled_at := Some now\<rparr> else b1)
      in if expires_at b2 = None then b2\<lparr>expires_at := Some (date_time sh)\<rparr> else b2)"

definition Booking_save ::
  "Booking \<Rightarrow> Show \<Rightarrow> int \<Rightarrow> string \<Rightarrow> Booking list \<Rightarrow> exn + (Booking \<times> Booking list)" where
  "Booking_save b sh now u rows =
     (case full_clean (save_defaults b sh now u) sh now rows of
        [] \<Rightarrow> db_save (save_defaults b sh now u) rows
      | e # es \<Rightarrow> Inl (ValidationError (e # es)))"

text \<open>
  \<open>Booking.cancel\<close>, the method the action \<open>cancel_selected_bookings\<close> of the admin site
  calls: it raises unless \<open>is_cancellable\<close> holds.
\<close>

definition Booking_cancel ::
  "Booking \<Rightarrow> Show \<Rightarrow> int \<Rightarrow> string \<Rightarrow> Booking list \<Rightarrow> exn + (Booking \<times> Booking list)" where
  "Booking_cancel b sh now u rows =
     (if \<not> is_cancellable b sh now then Inl (ValidationError [Cannot_be_cancelled])
      else Booking_save (b\<lparr>status := Cancelled, cancelled_at := Some now\<rparr>) sh now u rows)"

text \<open>
  \<open>Booking.objects.create(user=..., show=..., seat_number=..., status='booked')\<close>: a new
  instance with the defaults of the fields, then \<open>save\<close>.
\<close>

definition Booking_objects_create ::
  "nat \<Rightarrow> Show \<Rightarrow> int \<Rightarrow> int \<Rightarrow> string \<Rightarrow> Booking list \<Rightarrow> exn + (Booking \<times> Booking list)" where
  "Booking_objects_create usr sh n now u rows =
     Booking_save
       \<lparr>pk = None, user_id = usr, show_id = show_pk sh, seat_number = n, status = Booked,
        created_at = now, cancelled_at = None, expires_at = None, booking_reference = [],
        booking_notes = None\<rparr> sh now u rows"

section \<open>The handlers (movies/views.py)\<close>

text \<open>
  The responses of \<open>book_seat\<close> and \<open>cancel_booking\<close>, one constructor for each
  \<open>Response\<close> of the source, with the values its message interpolates.
\<close>

datatype response =
    Show_not_found
  | Seat_number_required
  | Seat_number_not_integer
  | Seat_number_not_positive
  | Seat_number_exceeds int
  | Past_show_booking
  | Booking_closed
  | Already_have_seat int
  | Max_seats_per_user
  | Seat_already_booked int nat
  | Seat_booked Booking
  | Booking_not_found
  | Not_your_booking
  | Already_cancelled
  | Past_show_cancel
  | Cancellation_closed
  | Booking_cancelled Booking

fun status_code :: "response \<Rightarrow> nat" where
  "status_code Show_not_found = 404"
| "status_code Booking_not_found = 404"
| "status_code Not_your_booking = 403"
| "status_code (Seat_booked b) = 201"
| "status_code (Booking_cancelled b) = 200"
| "status_code r = 400"

text \<open>
  \<open>request.data.get('seat_number')\<close> as the handler tells its values apart:
  \<open>Seat_falsy\<close> is a value that \<open>not seat_number\<close> accepts (absent, \<open>None\<close>, \<open>0\<close>, the
  empty string); \<open>Seat_not_int\<close> a truthy value on which \<open>int()\<close> raises \<open>ValueError\<close> or
  \<open>TypeError\<close>, the two exceptions the handler catches; \<open>Seat_overflow\<close> a truthy value
  on which \<open>int()\<close> raises \<open>OverflowError\<close>, which the handler does not catch (the
  infinite float the JSON parser makes of \<open>1e400\<close>); \<open>Seat_int n\<close> a truthy value that
  \<open>int()\<close> turns into \<open>n\<close> (which is \<open>0\<close> for the string \<open>"0"\<close>).
\<close>

datatype seat_param = Seat_falsy | Seat_not_int | Seat_overflow | Seat_int int

text \<open>\<open>check_user_booking_limits\<close>.\<close>

definition check_user_booking_limits :: "nat \<Rightarrow> Show \<Rightarrow> Booking list \<Rightarrow> bool" where
  "check_user_booking_limits usr sh rows = (length (booked_for_user rows usr (show_pk sh)) < 5)"

text \<open>
  The block under \<open>transaction.atomic()\<close> of \<open>book_seat\<close>. \<open>seen\<close> is the table the
  query for an existing booking of the seat reads, \<open>db\<close> the state the \<open>create\<close> meets:
  the same state when no other request commits in between.
\<close>

definition book_seat_atomic ::
  "nat \<Rightarrow> Show \<Rightarrow> int \<Rightarrow> int \<Rightarrow> string \<Rightarrow> Booking list \<Rightarrow> database
     \<Rightarrow> (exn + response) \<times> database" where
  "book_seat_atomic usr sh n now u seen db =
     (case first_qs (booked_for_seat seen (show_pk sh) n) of
        Some existing_booking \<Rightarrow> (Inr (Seat_already_booked n (user_id existing_booking)), db)
      | None \<Rightarrow>
          (case Booking_objects_create usr sh n now u (Booking_objects db) of
             Inl e \<Rightarrow> (Inl e, db)
           | Inr (booking, rows) \<Rightarrow> (Inr (Seat_booked booking), db\<lparr>Booking_objects := rows\<rparr>)))"

text \<open>
  \<open>book_seat\<close>. The handler reads the bookings three times before it writes, in three
  separate statements of which only the last is inside \<open>transaction.atomic()\<close>, and
  another request can commit between any two of them: \<open>rows_user\<close> is the table the query
  for a booking the caller already holds reads, \<open>rows_count\<close> the table the count of
  \<open>check_user_booking_limits\<close> reads, \<open>seen\<close> the table the query for the seat reads, and
  \<open>db\<close> the state the \<open>create\<close> meets.
\<close>

definition book_seat_concurrent ::
  "nat \<Rightarrow> nat \<Rightarrow> seat_param \<Rightarrow> int \<Rightarrow> string \<Rightarrow> Booking list \<Rightarrow> Booking list \<Rightarrow> Booking list
     \<Rightarrow> database \<Rightarrow> (exn + response) \<times> database" where
  "book_seat_concurrent usr sid p now u rows_user rows_count seen db =
     (case get_show db sid of
        None \<Rightarrow> (Inr Show_not_found, db)
      | Some sh \<Rightarrow>
          (case p of
             Seat_falsy \<Rightarrow> (Inr Seat_number_required, db)
           | Seat_not_int \<Rightarrow> (Inr Seat_number_not_integer, db)
           | Seat_overflow \<Rightarrow> (Inl OverflowError, db)
           | Seat_int n \<Rightarrow>
               if n \<le> 0 then (Inr Seat_number_not_positive, db)
               else if total_seats sh < n then (Inr (Seat_number_exceeds (total_seats sh)), db)
               else if date_time sh < now then (Inr Past_show_booking, db)
               else if date_time sh - timedelta_minutes 30 < now then (Inr Booking_closed, db)
               else (case first_qs (booked_for_user rows_user usr (show_pk sh)) of
                       Some existing_user_booking \<Rightarrow>
                         (Inr (Already_have_seat (seat_number existing_user_booking)), db)
                     | None \<Rightarrow>
                         if \<not> check_user_booking_limits usr sh rows_count
                         then (Inr Max_seats_per_user, db)
                         else book_seat_atomic usr sh n now u seen db)))"

text \<open>
  \<open>book_seat\<close> served with no other request in between: every read sees the ledger the
  request found.
\<close>

definition book_seat ::
  "nat \<Rightarrow> nat \<Rightarrow> seat_param \<Rightarrow> int \<Rightarrow> string \<Rightarrow> database \<Rightarrow> (exn + response) \<times> database" where
  "book_seat usr sid p now u db =
     book_seat_concurrent usr sid p now u
       (Booking_objects db) (Booking_objects db) (Booking_objects db) db"

text \<open>
  \<open>cancel_booking\<close>. \<open>booking.show\<close> follows the foreign key and raises when the row is
  gone; \<open>u\<close> is the draw \<open>save\<close> uses if the stored reference is empty.
\<close>

definition cancel_booking ::
  "nat \<Rightarrow> nat \<Rightarrow> int \<Rightarrow> string \<Rightarrow> database \<Rightarrow> (exn + response) \<times> database" where
  "cancel_booking usr bid now u db =
     (case get_booking db bid of
        None \<Rightarrow> (Inr Booking_not_found, db)
      | Some booking \<Rightarrow>
          if user_id booking \<noteq> usr then (Inr Not_your_booking, db)
          else if status booking = Cancelled then (Inr Already_cancelled, db)
          else (case get_show db (show_id booking) of
                  None \<Rightarrow> (Inl DoesNotExist, db)
                | Some sh \<Rightarrow>
                    if date_time sh < now then (Inr Past_show_cancel, db)
                    else if date_time sh - timedelta_hours 2 < now then (Inr Cancellation_closed, db)
                    else (case Booking_save (booking\<lparr>status := Cancelled\<rparr>) sh now u (Booking_objects db) of
                            Inl e \<Rightarrow> (Inl e, db)
                          | Inr (b, rows) \<Rightarrow> (Inr (Booking_cancelled b), db\<lparr>Booking_objects := rows\<rparr>))))"

section \<open>The expiry sweep (cleanup_expired_bookings)\<close>

text \<open>
  The queryset \<open>Booking.objects.filter(status='booked', show__date_time__lt=now)\<close>: the
  condition joins the booking with its show.
\<close>

definition expired_bookings :: "database \<Rightarrow> int \<Rightarrow> Booking \<Rightarrow> bool" where
  "expired_bookings db now r =
     (status r = Booked \<and> filter (\<lambda>s. show_pk s = show_id r \<and> date_time s < now) (Show_objects db) \<noteq> [])"

text \<open>
  \<open>cleanup_expired_bookings\<close> of \<open>movies/utils.py\<close>: \<open>update(status='expired')\<close> writes the
  rows of the queryset without calling \<open>save\<close>, and returns how many it wrote.
\<close>

definition cleanup_expired_bookings :: "int \<Rightarrow> database \<Rightarrow> nat \<times> database" where
  "cleanup_expired_bookings now db =
     (length (filter (expired_bookings db now) (Booking_objects db)),
      db\<lparr>Booking_objects := map (\<lambda>r. if expired_bookings db now r then r\<lparr>status := Expired\<rparr> else r)
                          (Booking_objects db)\<rparr>)"

text \<open>
  \<open>Command.handle\<close> of the management command: with \<open>--dry-run\<close> it only counts, else it
  performs the same update.
\<close>

definition handle :: "bool \<Rightarrow> int \<Rightarrow> database \<Rightarrow> nat \<times> database" where
  "handle dry_run now db =
     (if dry_run then (length (filter (expired_bookings db now) (Booking_objects db)), db)
      else cleanup_expired_bookings now db)"

section \<open>Creating a show (Show.save, ShowCreateSerializer)\<close>

text \<open>
  The attributes of a new show, after the conversion to their types (a string with the
  surrounding whitespace removed where the data come through the REST framework); the
  price in hundredths.
\<close>

record show_attrs =
  attr_movie :: nat
  attr_screen_name :: string
  attr_date_time :: int
  attr_total_seats :: int
  attr_price :: int

text \<open>
  The characters \<open>str.strip()\<close> removes, among the ASCII ones: space, the controls 9 to 13
  and 28 to 31.
\<close>

definition isspace :: "char \<Rightarrow> bool" where
  "isspace c = (of_char c \<in> set [9, 10, 11, 12, 13, 28, 29, 30, 31, 32 :: nat])"

text \<open>
  \<open>Show.full_clean\<close> on a new instance, whose movie exists: the validators of the
  fields (\<open>screen_name\<close> not blank and of at most 100 characters,
  \<open>validate_future_datetime\<close>, the two bounds of \<open>total_seats\<close>, at most eight digits
  in the price), then \<open>Show.clean\<close>, whose first failing check raises, then
  \<open>unique_together\<close>, checked when neither \<open>screen_name\<close> nor \<open>date_time\<close> has an error
  yet (every error of \<open>Show.clean\<close> is an error of one of the two).
\<close>

definition Show_clean_fields :: "show_attrs \<Rightarrow> int \<Rightarrow> validation_error list" where
  "Show_clean_fields a now =
     (if attr_screen_name a = [] then [Screen_name_blank]
      else if 100 < length (attr_screen_name a) then [Screen_name_too_long] else [])
     @ (if attr_date_time a \<le> now then [Date_time_not_future] else [])
     @ (if attr_total_seats a < 1 then [Total_seats_below_1]
        else if 1000 < attr_total_seats a then [Total_seats_above_1000] else [])
     @ (if 100000000 \<le> \<bar>attr_price a\<bar> then [Price_too_many_digits] else [])"

definition Show_clean :: "show_attrs \<Rightarrow> int \<Rightarrow> Show list \<Rightarrow> validation_error list" where
  "Show_clean a now rows =
     (if attr_date_time a \<le> now then [Date_time_not_future]
      else if attr_screen_name a \<noteq> [] \<and> filter (\<lambda>c. \<not> isspace c) (attr_screen_name a) = []
      then [Screen_name_whitespace]
      else if attr_screen_name a \<noteq> []
              \<and> filter (\<lambda>s. screen_name s = attr_screen_name a \<and> date_time s = attr_date_time a) rows \<noteq> []
      then [Screen_is_already_booked]
      else [])"

definition Show_validate_unique :: "show_attrs \<Rightarrow> int \<Rightarrow> Show list \<Rightarrow> validation_error list" where
  "Show_validate_unique a now rows =
     (if attr_screen_name a = [] \<or> attr_date_time a \<le> now \<or> Show_clean a now rows \<noteq> [] then []
      else if filter (\<lambda>s. screen_name s = attr_screen_name a \<and> date_time s = attr_date_time a) rows \<noteq> []
      then [Screen_date_time_not_unique] else [])"

definition Show_full_clean :: "show_attrs \<Rightarrow> int \<Rightarrow> Show list \<Rightarrow> validation_error list" where
  "Show_full_clean a now rows =
     Show_clean_fields a now @ Show_clean a now rows @ Show_validate_unique a now rows"

definition next_show_pk :: "Show list \<Rightarrow> nat" where
  "next_show_pk rows = Suc (fold (\<lambda>s m. max (show_pk s) m) rows 0)"

text \<open>
  \<open>Show.objects.create(...)\<close>, the call by which \<open>create_sample_data\<close> creates its
  shows: \<open>Show.save\<close> runs \<open>full_clean\<close>, then the row is inserted, \<open>is_active\<close> at its
  default; the store refuses a second row for a \<open>(screen_name, date_time)\<close> pair. The add
  form of the admin site saves through the same \<open>Show.save\<close>.
\<close>

definition Show_objects_create :: "show_attrs \<Rightarrow> int \<Rightarrow> Show list \<Rightarrow> exn + (Show \<times> Show list)" where
  "Show_objects_create a now rows =
     (case Show_full_clean a now rows of
        e # es \<Rightarrow> Inl (ValidationError (e # es))
      | [] \<Rightarrow>
          if filter (\<lambda>s. screen_name s = attr_screen_name a \<and> date_time s = attr_date_time a) rows \<noteq> []
          then Inl IntegrityError
          else (let sh = \<lparr>show_pk = next_show_pk rows, movie_id = attr_movie a,
                          screen_name = attr_screen_name a, date_time = attr_date_time a,
                          total_seats = attr_total_seats a, price = attr_price a, is_active = True\<rparr>
                in Inr (sh, rows @ [sh])))"

text \<open>
  \<open>ShowCreateSerializer\<close>. No view, route or command of the repository uses the class;
  what is modelled is its validation, \<open>is_valid()\<close>. The first seven errors are those of
  the validators that the model serializer derives from the model and runs on its own:
  on each field before the \<open>validate_...\<close> method of the field, and on the pair
  \<open>(screen_name, date_time)\<close> before \<open>validate\<close>. The others are the errors the class
  raises itself.
\<close>

datatype serializer_error =
    May_not_be_blank
  | At_most_100_characters
  | Date_and_time_in_future
  | At_least_1_seat
  | At_most_1000
  | At_most_8_digits
  | Must_make_unique_set
  | Must_be_in_future
  | Must_be_hour_in_advance
  | At_least_10_seats
  | At_most_1000_seats
  | Price_negative
  | Price_above_10000
  | Screen_already_booked_at_time

definition validate_date_time :: "int \<Rightarrow> int \<Rightarrow> serializer_error list" where
  "validate_date_time v now =
     (if v \<le> now then [Must_be_in_future]
      else if v < now + timedelta_hours 1 then [Must_be_hour_in_advance]
      else [])"

definition validate_total_seats :: "int \<Rightarrow> serializer_error list" where
  "validate_total_seats v =
     (if v < 10 then [At_least_10_seats] else if 1000 < v then [At_most_1000_seats] else [])"

definition validate_price :: "int \<Rightarrow> serializer_error list" where
  "validate_price v =
     (if v < 0 then [Price_negative] else if 1000000 < v then [Price_above_10000] else [])"

text \<open>\<open>ShowCreateSerializer.validate\<close>; an empty \<open>screen_name\<close> is falsy and skips the query.\<close>

definition validate :: "show_attrs \<Rightarrow> Show list \<Rightarrow> serializer_error list" where
  "validate attrs rows =
     (if attr_screen_name attrs \<noteq> []
         \<and> filter (\<lambda>s. screen_name s = attr_screen_name attrs \<and> date_time s = attr_date_time attrs) rows \<noteq> []
      then [Screen_already_booked_at_time] else [])"

text \<open>
  The fields in the order of \<open>Meta.fields\<close> (the movie is taken to exist). A field whose
  own validators fail does not reach its \<open>validate_...\<close> method; the errors of the fields
  are collected.
\<close>

definition screen_name_field :: "string \<Rightarrow> serializer_error list" where
  "screen_name_field v =
     (if v = [] then [May_not_be_blank]
      else if 100 < length v then [At_most_100_characters] else [])"

definition date_time_field :: "int \<Rightarrow> int \<Rightarrow> serializer_error list" where
  "date_time_field v now =
     (if v \<le> now then [Date_and_time_in_future] else validate_date_time v now)"

definition total_seats_field :: "int \<Rightarrow> serializer_error list" where
  "total_seats_field v =
     (if v < 1 then [At_least_1_seat]
      else if 1000 < v then [At_most_1000]
      else validate_total_seats v)"

definition price_field :: "int \<Rightarrow> serializer_error list" where
  "price_field v = (if 100000000 \<le> \<bar>v\<bar> then [At_most_8_digits] else validate_price v)"

text \<open>
  \<open>is_valid\<close>, as the list of its errors: the fields; when no field has an error, the
  validator of the unique pair; when that passes, \<open>validate\<close>.
\<close>

definition is_valid :: "show_attrs \<Rightarrow> int \<Rightarrow> Show list \<Rightarrow> serializer_error list" where
  "is_valid attrs now rows =
     (case screen_name_field (attr_screen_name attrs)
           @ date_time_field (attr_date_time attrs) now
           @ total_seats_field (attr_total_seats attrs)
           @ price_field (attr_price attrs) of
        e # es \<Rightarrow> e # es
      | [] \<Rightarrow>
          if filter (\<lambda>s. screen_name s = attr_screen_name attrs \<and> date_time s = attr_date_time attrs)
               rows \<noteq> []
          then [Must_make_unique_set]
          else validate attrs rows)"

section \<open>The invariant of the ledger and the failure reasons of the specification\<close>

text \<open>
  Seat uniqueness: for every show and seat number at most one row has status booked.
  \<open>seat_unique\<close> is the same property in a form that can be computed.
\<close>

definition seat_uniqueness :: "Booking list \<Rightarrow> bool" where
  "seat_uniqueness rows = (\<forall>s n. length (booked_for_seat rows s n) \<le> 1)"

definition seat_unique :: "Booking list \<Rightarrow> bool" where
  "seat_unique rows =
     distinct (map (\<lambda>r. (show_id r, seat_number r)) (filter (\<lambda>r. status r = Booked) rows))"

text \<open>
  The ledgers that the three operations reach from a ledger without bookings, whatever
  shows the catalog holds. \<open>race\<close> is the write of a handler whose query for the seat read
  an older table \<open>seen\<close>, as happens when another request commits in between.
\<close>

inductive reachable :: "database \<Rightarrow> bool" where
  init: "reachable \<lparr>Show_objects = ss, Booking_objects = []\<rparr>"
| book: "reachable db \<Longrightarrow> reachable (snd (book_seat usr sid p now u db))"
| race: "reachable db \<Longrightarrow> reachable (snd (book_seat_atomic usr sh n now u seen db))"
| cancel: "reachable db \<Longrightarrow> reachable (snd (cancel_booking usr bid now u db))"
| sweep: "reachable db \<Longrightarrow> reachable (snd (cleanup_expired_bookings now db))"

text \<open>
  The failure reasons the specification names (its section 7), and the reason for which
  each response of the two handlers stands. No response of the source is an
  \<open>AlreadyExpired\<close>.
\<close>

datatype failure =
    NotFound | Forbidden | InvalidSeat | ShowAlreadyStarted | BookingWindowClosed
  | UserAlreadyBooked | UserLimitExceeded | SeatTaken | AlreadyCancelled | AlreadyExpired
  | ShowAlreadyOccurred | CancellationWindowClosed

fun spec_failure :: "response \<Rightarrow> failure option" where
  "spec_failure Show_not_found = Some NotFound"
| "spec_failure Seat_number_required = Some InvalidSeat"
| "spec_failure Seat_number_not_integer = Some InvalidSeat"
| "spec_failure Seat_number_not_positive = Some InvalidSeat"
| "spec_failure (Seat_number_exceeds t) = Some InvalidSeat"
| "spec_failure Past_show_booking = Some ShowAlreadyStarted"
| "spec_failure Booking_closed = Some BookingWindowClosed"
| "spec_failure (Already_have_seat n) = Some UserAlreadyBooked"
| "spec_failure Max_seats_per_user = Some UserLimitExceeded"
| "spec_failure (Seat_already_booked n w) = Some SeatTaken"
| "spec_failure (Seat_booked b) = None"
| "spec_failure Booking_not_found = Some NotFound"
| "spec_failure Not_your_booking = Some Forbidden"
| "spec_failure Already_cancelled = Some AlreadyCancelled"
| "spec_failure Past_show_cancel = Some ShowAlreadyOccurred"
| "spec_failure Cancellation_closed = Some CancellationWindowClosed"
| "spec_failure (Booking_cancelled b) = None"

section \<open>Example data\<close>

text \<open>
  One show of a hundred seats that starts ten hours after the epoch, and the ledger after
  user 1 booked seat 10 of it at instant 0.
\<close>

definition show1 :: Show where
  "show1 = \<lparr>show_pk = 1, movie_id = 1, screen_name = ''Screen 1'', date_time = 36000000000,
            total_seats = 100, price = 25000, is_active = True\<rparr>"

definition booking1 :: Booking where
  "booking1 = \<lparr>pk = Some 1, user_id = 1, show_id = 1, seat_number = 10, status = Booked,
               created_at = 0, cancelled_at = None, expires_at = Some 36000000000,
               booking_reference = ''BK0A1B2C3D'', booking_notes = None\<rparr>"

definition db0 :: database where
  "db0 = \<lparr>Show_objects = [show1], Booking_objects = []\<rparr>"

definition db1 :: database where
  "db1 = \<lparr>Show_objects = [show1], Booking_objects = [booking1]\<rparr>"

text \<open>
  The same ledger after the holder cancelled at the first second, and after the sweep ran
  an hour after the show started; a show that is not active, in a catalog of its own; and
  the data of a show that can be created next to the first one.
\<close>

definition booking1_cancelled :: Booking where
  "booking1_cancelled = booking1\<lparr>status := Cancelled, cancelled_at := Some 1000000\<rparr>"

definition booking1_expired :: Booking where
  "booking1_expired = booking1\<lparr>status := Expired\<rparr>"

definition db1_cancelled :: database where
  "db1_cancelled = \<lparr>Show_objects = [show1], Booking_objects = [booking1_cancelled]\<rparr>"

definition db1_expired :: database where
  "db1_expired = \<lparr>Show_objects = [show1], Booking_objects = [booking1_expired]\<rparr>"

definition show2 :: Show where
  "show2 = \<lparr>show_pk = 2, movie_id = 1, screen_name = ''Screen 2'', date_time = 36000000000,
            total_seats = 100, price = 25000, is_active = False\<rparr>"

definition db2 :: database where
  "db2 = \<lparr>Show_objects = [show2], Booking_objects = []\<rparr>"

definition attrs1 :: show_attrs where
  "attrs1 = \<lparr>attr_movie = 1, attr_screen_name = ''Screen 1'', attr_date_time = 72000000000,
             attr_total_seats = 50, attr_price = 25000\<rparr>"

text \<open>
  Six requests of user 1 for seats 1 to 6 of the first show, sent together: each runs its
  query for a booking the caller already holds on the empty ledger. \<open>parallel_request\<close>
  is the ledger after one of the first five has gone on alone and committed; \<open>db5\<close> the
  ledger after all five.
\<close>

definition parallel_request :: "int \<Rightarrow> string \<Rightarrow> database \<Rightarrow> database" where
  "parallel_request n u db =
     snd (book_seat_concurrent 1 1 (Seat_int n) 0 u [] (Booking_objects db) (Booking_objects db) db)"

definition db5 :: database where
  "db5 = parallel_request 5 ''00000005'' (parallel_request 4 ''00000004''
           (parallel_request 3 ''00000003'' (parallel_request 2 ''00000002''
             (parallel_request 1 ''00000001'' db0))))"

section \<open>Lemmas on the queries\<close>

lemma first_qs_None_iff: "first_qs rs = None \<longleftrightarrow> rs = []"
  by (induction rs) (auto split: option.splits)

lemma first_qs_mem: "first_qs rs = Some r \<Longrightarrow> r \<in> set rs"
  by (induction rs arbitrary: r) (auto split: option.splits if_splits)

section \<open>The expiry sweep is idempotent\<close>

lemma sweep_rows_not_expired:
  "r \<in> set (Booking_objects (snd (cleanup_expired_bookings now db)))
   \<Longrightarrow> \<not> expired_bookings (snd (cleanup_expired_bookings now db)) now r"
  by (auto simp add: expired_bookings_def cleanup_expired_bookings_def)

lemma cleanup_noop:
  assumes "\<And>r. r \<in> set (Booking_objects db) \<Longrightarrow> \<not> expired_bookings db now r"
  shows "cleanup_expired_bookings now db = (0, db)"
proof -
  have "filter (expired_bookings db now) (Booking_objects db) = []"
    using assms by (simp add: filter_empty_conv)
  moreover have "map (\<lambda>r. if expired_bookings db now r then r\<lparr>status := Expired\<rparr> else r)
                   (Booking_objects db) = Booking_objects db"
    using assms by (simp add: map_idI)
  ultimately show ?thesis by (simp add: cleanup_expired_bookings_def)
qed

text \<open>
  C7. Running the sweep at \<open>now\<close> and running it again at the same \<open>now\<close> on the ledger
  the first run left: the second run writes no row (its count is 0) and leaves the ledger
  as it found it. This holds for the function of \<open>movies/utils.py\<close> and for the
  management command run without \<open>--dry-run\<close>.
\<close>

theorem expire_due_idempotent:
  "cleanup_expired_bookings now (snd (cleanup_expired_bookings now db))
     = (0, snd (cleanup_expired_bookings now db))
   \<and> handle False now (snd (handle False now db)) = (0, snd (handle False now db))"
  using cleanup_noop [OF sweep_rows_not_expired [of _ now db]]
  by (simp add: handle_def)

text \<open>
  At the example ledger, an hour after the show started: the first sweep writes one row,
  the second none.
\<close>

theorem expire_due_idempotent_witness:
  "fst (cleanup_expired_bookings 39600000000 db1) = 1
   \<and> cleanup_expired_bookings 39600000000 (snd (cleanup_expired_bookings 39600000000 db1))
       = (0, snd (cleanup_expired_bookings 39600000000 db1))"
  using expire_due_idempotent [of 39600000000 db1]
  by (simp add: cleanup_expired_bookings_def expired_bookings_def db1_def show1_def booking1_def)

section \<open>The limit of five seats\<close>

text \<open>
  C10, as amended. When the query for a booking the caller already holds for the show and
  the count of \<open>check_user_booking_limits\<close> read the same table, the count is below five
  whenever the query finds nothing, and \<open>book_seat\<close> does not answer with the error of the
  five-seat limit, whatever the later reads see; in particular no call served alone does.
\<close>

theorem limit_branch_unreachable:
  "(first_qs (booked_for_user rows usr (show_pk sh)) = None
      \<longrightarrow> check_user_booking_limits usr sh rows)
   \<and> fst (book_seat_concurrent usr sid p now u rows rows seen db) \<noteq> Inr Max_seats_per_user
   \<and> fst (book_seat usr sid p now u db) \<noteq> Inr Max_seats_per_user"
  by (auto simp add: book_seat_def book_seat_concurrent_def book_seat_atomic_def
      check_user_booking_limits_def first_qs_None_iff
      split: option.splits seat_param.splits sum.splits)

theorem limit_branch_unreachable_witness:
  "first_qs (booked_for_user (Booking_objects db1) 2 (show_pk show1)) = None
   \<and> check_user_booking_limits 2 show1 (Booking_objects db1)
   \<and> fst (book_seat_concurrent 2 1 (Seat_int 11) 0 ''11111111''
            (Booking_objects db1) (Booking_objects db1) [] db1) \<noteq> Inr Max_seats_per_user
   \<and> fst (book_seat 2 1 (Seat_int 11) 0 ''11111111'' db1) \<noteq> Inr Max_seats_per_user"
  using limit_branch_unreachable [of "Booking_objects db1" 2 show1 1 "Seat_int 11" 0 "''11111111''" "[]" db1]
  by (simp add: booked_for_user_def db1_def show1_def booking1_def)

section \<open>Seat uniqueness\<close>

lemma length_filter_map_le:
  assumes "\<And>r. Q (g r) \<Longrightarrow> Q r"
  shows "length (filter Q (map g xs)) \<le> length (filter Q xs)"
  using assms by (induction xs) auto

lemma seat_unique_iff: "seat_unique rows \<longleftrightarrow> seat_uniqueness rows"
proof (induction rows)
  case Nil
  show ?case by (simp add: seat_unique_def seat_uniqueness_def booked_for_seat_def)
next
  case (Cons r rows)
  show ?case
  proof (cases "status r = Booked")
    case False
    then show ?thesis using Cons
      by (simp add: seat_unique_def seat_uniqueness_def booked_for_seat_def)
  next
    case True
    have key: "(show_id r, seat_number r) \<notin> (\<lambda>r. (show_id r, seat_number r)) ` set (filter (\<lambda>r. status r = Booked) rows)
       \<longleftrightarrow> booked_for_seat rows (show_id r) (seat_number r) = []"
      unfolding booked_for_seat_def filter_empty_conv image_iff set_filter
      by (intro iffI; simp; metis)
    show ?thesis
    proof
      assume a: "seat_unique (r # rows)"
      then have "seat_uniqueness rows" and e: "booked_for_seat rows (show_id r) (seat_number r) = []"
        using True Cons key by (auto simp add: seat_unique_def)
      then show "seat_uniqueness (r # rows)"
        using True unfolding seat_uniqueness_def
        by (auto simp add: booked_for_seat_def)
    next
      assume a: "seat_uniqueness (r # rows)"
      have "length (booked_for_seat (r # rows) (show_id r) (seat_number r)) \<le> 1"
        using a by (simp add: seat_uniqueness_def)
      then have e: "booked_for_seat rows (show_id r) (seat_number r) = []"
        using True by (simp add: booked_for_seat_def)
      have "seat_uniqueness rows"
        unfolding seat_uniqueness_def
      proof (intro allI)
        fix s n
        have "length (booked_for_seat rows s n) \<le> length (booked_for_seat (r # rows) s n)"
          by (simp add: booked_for_seat_def)
        also have "\<dots> \<le> 1" using a by (simp add: seat_uniqueness_def)
        finally show "length (booked_for_seat rows s n) \<le> 1" .
      qed
      then show "seat_unique (r # rows)"
        using True Cons key e by (simp add: seat_unique_def)
    qed
  qed
qed

lemma sweep_preserves:
  assumes "seat_uniqueness (Booking_objects db)"
  shows "seat_uniqueness (Booking_objects (snd (cleanup_expired_bookings now db)))"
  unfolding seat_uniqueness_def
proof (intro allI)
  fix s n
  have eq: "Booking_objects (snd (cleanup_expired_bookings now db))
      = map (\<lambda>r. if expired_bookings db now r then r\<lparr>status := Expired\<rparr> else r) (Booking_objects db)"
    by (simp add: cleanup_expired_bookings_def)
  have "length (booked_for_seat (Booking_objects (snd (cleanup_expired_bookings now db))) s n)
        \<le> length (booked_for_seat (Booking_objects db) s n)"
    unfolding eq booked_for_seat_def
    by (rule length_filter_map_le) (auto split: if_splits)
  also have "\<dots> \<le> 1" using assms by (simp add: seat_uniqueness_def)
  finally show "length (booked_for_seat (Booking_objects (snd (cleanup_expired_bookings now db))) s n) \<le> 1" .
qed

lemma db_save_preserves:
  assumes inv: "seat_uniqueness rows"
    and sv: "db_save b rows = Inr (b', rows')"
    and new: "pk b = None \<or> status b \<noteq> Booked"
  shows "seat_uniqueness rows'"
proof (cases "status b = Booked")
  case True
  then have pkn: "pk b = None" using new by simp
  from sv True pkn have free: "booked_for_seat rows (show_id b) (seat_number b) = []"
    and rows': "rows' = rows @ [b\<lparr>pk := Some (next_pk rows)\<rparr>]"
    by (auto simp add: db_save_def integrity_violation_def exclude_id_def Let_def split: if_splits)
  show ?thesis
    unfolding seat_uniqueness_def
  proof (intro allI)
    fix s n
    show "length (booked_for_seat rows' s n) \<le> 1"
    proof (cases "s = show_id b \<and> n = seat_number b")
      case True
      then show ?thesis using free rows' by (simp add: booked_for_seat_def)
    next
      case False
      then have "booked_for_seat rows' s n = booked_for_seat rows s n"
        using rows' by (auto simp add: booked_for_seat_def)
      then show ?thesis using inv by (simp add: seat_uniqueness_def)
    qed
  qed
next
  case False
  have le: "length (booked_for_seat rows' s n) \<le> length (booked_for_seat rows s n)" for s n
  proof (cases "pk b")
    case None
    then have "rows' = rows @ [b\<lparr>pk := Some (next_pk rows)\<rparr>]"
      using sv by (auto simp add: db_save_def Let_def split: if_splits)
    then show ?thesis using False by (simp add: booked_for_seat_def)
  next
    case (Some k)
    then consider "rows' = rows @ [b]" | "rows' = map (\<lambda>r. if pk r = Some k then b else r) rows"
      using sv by (auto simp add: db_save_def split: if_splits)
    then show ?thesis
    proof cases
      case 1
      then show ?thesis using False by (simp add: booked_for_seat_def)
    next
      case 2
      show ?thesis unfolding 2 booked_for_seat_def
        by (rule length_filter_map_le) (use False in \<open>auto split: if_splits\<close>)
    qed
  qed
  show ?thesis
    unfolding seat_uniqueness_def
  proof (intro allI)
    fix s n
    have "length (booked_for_seat rows' s n) \<le> length (booked_for_seat rows s n)" by (rule le)
    also have "\<dots> \<le> 1" using inv by (simp add: seat_uniqueness_def)
    finally show "length (booked_for_seat rows' s n) \<le> 1" .
  qed
qed

lemma Booking_save_preserves:
  assumes inv: "seat_uniqueness rows"
    and sv: "Booking_save b sh now u rows = Inr (b', rows')"
    and new: "pk b = None \<or> status b \<noteq> Booked"
  shows "seat_uniqueness rows'"
proof -
  have "pk (save_defaults b sh now u) = pk b" "status (save_defaults b sh now u) = status b"
    by (simp_all add: save_defaults_def Let_def)
  moreover have "db_save (save_defaults b sh now u) rows = Inr (b', rows')"
    using sv by (simp add: Booking_save_def split: list.splits)
  ultimately obtain b3 where b3: "db_save b3 rows = Inr (b', rows')" "pk b3 = pk b" "status b3 = status b"
    by blast
  show ?thesis using db_save_preserves [OF inv b3(1)] new b3 by simp
qed

lemma atomic_preserves:
  assumes "seat_uniqueness (Booking_objects db)"
  shows "seat_uniqueness (Booking_objects (snd (book_seat_atomic usr sh n now u seen db)))"
  using assms Booking_save_preserves [of "Booking_objects db" _ sh now u]
  by (auto simp add: book_seat_atomic_def Booking_objects_create_def
      split: option.splits sum.splits)

lemma book_preserves:
  assumes "seat_uniqueness (Booking_objects db)"
  shows "seat_uniqueness (Booking_objects (snd (book_seat usr sid p now u db)))"
  using assms atomic_preserves [OF assms]
  by (auto simp add: book_seat_def book_seat_concurrent_def split: option.splits seat_param.splits)

lemma cancel_preserves:
  assumes "seat_uniqueness (Booking_objects db)"
  shows "seat_uniqueness (Booking_objects (snd (cancel_booking usr bid now u db)))"
  using assms Booking_save_preserves [of "Booking_objects db" _ _ now u]
  by (auto simp add: cancel_booking_def split: option.splits sum.splits)

lemma reachable_seat_unique_rows: "reachable db \<Longrightarrow> seat_uniqueness (Booking_objects db)"
proof (induction rule: reachable.induct)
  case (init ss)
  show ?case by (simp add: seat_uniqueness_def booked_for_seat_def)
qed (simp_all add: book_preserves atomic_preserves cancel_preserves sweep_preserves)


lemma book_alice: "book_seat 1 1 (Seat_int 10) 0 ''0A1B2C3D'' db0 = (Inr (Seat_booked booking1), db1)"
  by (simp add: book_seat_def book_seat_concurrent_def book_seat_atomic_def Booking_objects_create_def Booking_save_def save_defaults_def
      full_clean_def clean_fields_def Booking_clean_def validate_unique_def db_save_def
      integrity_violation_def exclude_id_def next_pk_def generate_booking_reference_def
      check_user_booking_limits_def booked_for_seat_def booked_for_user_def get_show_def
      timedelta_minutes_def db0_def db1_def show1_def booking1_def Let_def)

lemma reachable_db1: "reachable db1"
proof -
  have "reachable (snd (book_seat 1 1 (Seat_int 10) 0 ''0A1B2C3D'' db0))"
    unfolding db0_def by (rule reachable.book [OF reachable.init])
  then show ?thesis by (simp only: book_alice snd_conv)
qed

text \<open>
  C1. In every ledger the operations reach, each show and seat number has at most one
  booking with status booked; and from any ledger with this property, \<open>book_seat\<close>, the
  write of a booking whose check read an older table, \<open>cancel_booking\<close> and the expiry
  sweep each lead to a ledger with this property, whatever their arguments and outcome.
\<close>

theorem seat_uniqueness_invariant:
  "(reachable db \<longrightarrow> (\<forall>s n. length (booked_for_seat (Booking_objects db) s n) \<le> 1))
   \<and> (seat_uniqueness (Booking_objects db) \<longrightarrow>
        seat_uniqueness (Booking_objects (snd (book_seat usr sid p now u db)))
        \<and> seat_uniqueness (Booking_objects (snd (book_seat_atomic usr sh n now u seen db)))
        \<and> seat_uniqueness (Booking_objects (snd (cancel_booking usr bid now u db)))
        \<and> seat_uniqueness (Booking_objects (snd (cleanup_expired_bookings now db))))"
  using reachable_seat_unique_rows [of db]
  by (simp add: book_preserves atomic_preserves cancel_preserves sweep_preserves
      seat_uniqueness_def [of "Booking_objects db"])

text \<open>
  The example ledger is reachable and has the property, and so have the ledgers after a
  second user asks for the seat that is taken, after the holder cancels, and after a sweep.
\<close>

theorem seat_uniqueness_invariant_witness:
  "reachable db1
   \<and> seat_unique (Booking_objects db1)
   \<and> length (booked_for_seat (Booking_objects db1) 1 10) = 1
   \<and> seat_uniqueness (Booking_objects (snd (book_seat 1 1 (Seat_int 10) 1000000 ''11111111'' db1)))
   \<and> seat_uniqueness (Booking_objects (snd (book_seat_atomic 1 show1 10 1000000 ''11111111'' [] db1)))
   \<and> seat_uniqueness (Booking_objects (snd (cancel_booking 1 1 1000000 ''11111111'' db1)))
   \<and> seat_uniqueness (Booking_objects (snd (cleanup_expired_bookings 1000000 db1)))"
proof -
  have u: "seat_unique (Booking_objects db1)"
    by (simp add: seat_unique_def db1_def booking1_def)
  have l: "length (booked_for_seat (Booking_objects db1) 1 10) = 1"
    by (simp add: booked_for_seat_def db1_def booking1_def)
  from u have "seat_uniqueness (Booking_objects db1)"
    by (simp add: seat_unique_iff)
  with seat_uniqueness_invariant [where db = db1 and usr = 1 and sid = 1 and p = "Seat_int 10"
      and now = 1000000 and u = "''11111111''" and sh = show1 and n = 10 and seen = "[]" and bid = 1]
  show ?thesis using reachable_db1 u l
    by simp
qed

section \<open>Booking a seat\<close>

lemma get_show_pk: "get_show db sid = Some sh \<Longrightarrow> show_pk sh = sid"
  by (auto simp add: get_show_def find_Some_iff)

lemma Booking_objects_create_ok:
  assumes "1 \<le> n" and "n \<le> total_seats sh" and "now < date_time sh"
    and "booked_for_seat rows (show_pk sh) n = []"
    and "filter (\<lambda>r. booking_reference r = generate_booking_reference u) rows = []"
  shows "Booking_objects_create usr sh n now u rows =
     Inr (\<lparr>pk = Some (next_pk rows), user_id = usr, show_id = show_pk sh, seat_number = n,
           status = Booked, created_at = now, cancelled_at = None,
           expires_at = Some (date_time sh),
           booking_reference = generate_booking_reference u, booking_notes = None\<rparr>,
          rows @ [\<lparr>pk = Some (next_pk rows), user_id = usr, show_id = show_pk sh, seat_number = n,
           status = Booked, created_at = now, cancelled_at = None,
           expires_at = Some (date_time sh),
           booking_reference = generate_booking_reference u, booking_notes = None\<rparr>])"
  using assms
  by (simp add: Booking_objects_create_def Booking_save_def save_defaults_def full_clean_def clean_fields_def
      Booking_clean_def validate_unique_def db_save_def integrity_violation_def exclude_id_def
      Let_def)

lemma book_seat_ok:
  assumes "get_show db sid = Some sh"
    and "1 \<le> n" and "n \<le> total_seats sh"
    and "now \<le> date_time sh - timedelta_minutes 30"
    and "booked_for_user (Booking_objects db) usr (show_pk sh) = []"
    and "booked_for_seat (Booking_objects db) (show_pk sh) n = []"
    and "filter (\<lambda>r. booking_reference r = generate_booking_reference u) (Booking_objects db) = []"
  shows "book_seat usr sid (Seat_int n) now u db =
     (Inr (Seat_booked \<lparr>pk = Some (next_pk (Booking_objects db)), user_id = usr, show_id = show_pk sh,
           seat_number = n, status = Booked, created_at = now, cancelled_at = None,
           expires_at = Some (date_time sh),
           booking_reference = generate_booking_reference u, booking_notes = None\<rparr>),
      db\<lparr>Booking_objects := Booking_objects db @
          [\<lparr>pk = Some (next_pk (Booking_objects db)), user_id = usr, show_id = show_pk sh,
           seat_number = n, status = Booked, created_at = now, cancelled_at = None,
           expires_at = Some (date_time sh),
           booking_reference = generate_booking_reference u, booking_notes = None\<rparr>]\<rparr>)"
proof -
  have lt: "now < date_time sh" using assms(4) by (simp add: timedelta_minutes_def)
  have c: "Booking_objects_create usr sh n now u (Booking_objects db) = Inr (\<lparr>pk = Some (next_pk (Booking_objects db)), user_id = usr, show_id = show_pk sh,
           seat_number = n, status = Booked, created_at = now, cancelled_at = None,
           expires_at = Some (date_time sh),
           booking_reference = generate_booking_reference u, booking_notes = None\<rparr>, Booking_objects db @
          [\<lparr>pk = Some (next_pk (Booking_objects db)), user_id = usr, show_id = show_pk sh,
           seat_number = n, status = Booked, created_at = now, cancelled_at = None,
           expires_at = Some (date_time sh),
           booking_reference = generate_booking_reference u, booking_notes = None\<rparr>])"
    by (rule Booking_objects_create_ok [OF assms(2,3) lt assms(6,7)])
  show ?thesis
    using assms(1-6) lt
    by (simp add: book_seat_def book_seat_concurrent_def book_seat_atomic_def c check_user_booking_limits_def)
qed

section \<open>A rejection at write time\<close>

lemma write_time_rejection:
  assumes "1 \<le> n" and "n \<le> total_seats sh" and "now < date_time sh"
    and "booked_for_seat seen (show_pk sh) n = []"
    and "booked_for_seat (Booking_objects db) (show_pk sh) n \<noteq> []"
  shows "book_seat_atomic usr sh n now u seen db =
           (Inl (ValidationError (Seat_is_already_booked #
              validate_unique \<lparr>pk = None, user_id = usr, show_id = show_pk sh, seat_number = n,
           status = Booked, created_at = now, cancelled_at = None,
           expires_at = Some (date_time sh),
           booking_reference = generate_booking_reference u, booking_notes = None\<rparr> (Booking_objects db))), db)"
  using assms
  by (simp add: book_seat_atomic_def Booking_objects_create_def Booking_save_def save_defaults_def full_clean_def
      clean_fields_def Booking_clean_def exclude_id_def Let_def)


lemma book_seat_succeeds:
  assumes "get_show db sid = Some sh"
    and "1 \<le> n" and "n \<le> total_seats sh"
    and "now \<le> date_time sh - timedelta_minutes 30"
    and "booked_for_user (Booking_objects db) usr sid = []"
    and "booked_for_seat (Booking_objects db) sid n = []"
    and "filter (\<lambda>r. booking_reference r = generate_booking_reference u) (Booking_objects db) = []"
  shows "\<exists>b. book_seat usr sid (Seat_int n) now u db
               = (Inr (Seat_booked b), db\<lparr>Booking_objects := Booking_objects db @ [b]\<rparr>)
           \<and> user_id b = usr \<and> show_id b = sid \<and> seat_number b = n \<and> status b = Booked"
proof -
  have pk: "show_pk sh = sid" using assms(1) by (rule get_show_pk)
  show ?thesis
    using book_seat_ok [OF assms(1-4), of usr u] assms(5-7) by (simp add: pk)
qed

text \<open>
  C2. The write of \<open>book_seat\<close> when the seat was free in the table its own query read
  and is taken in the ledger the \<open>create\<close> meets: \<open>Booking.clean\<close> rejects the insert, and
  the handler, which catches no exception, ends with the \<open>ValidationError\<close>
  and no response; the ledger is unchanged. The answer is not the response
  \<open>Seat_already_booked\<close> that the handler's own query gives for a taken seat.
\<close>

theorem write_time_rejection_unhandled:
  assumes "1 \<le> n" and "n \<le> total_seats sh" and "now < date_time sh"
    and "booked_for_seat seen (show_pk sh) n = []"
    and "booked_for_seat (Booking_objects db) (show_pk sh) n \<noteq> []"
  shows "\<exists>errs. book_seat_atomic usr sh n now u seen db = (Inl (ValidationError errs), db)
                \<and> Seat_is_already_booked \<in> set errs"
  using write_time_rejection [OF assms] by simp

text \<open>
  Two requests for seat 10 of the example show, both after reading the empty table: the
  second one's write meets the first one's booking and raises, while a request that starts
  after the first one committed gets the response for a taken seat.
\<close>

theorem write_time_rejection_unhandled_witness:
  "booked_for_seat (Booking_objects db0) (show_pk show1) 10 = []
   \<and> booked_for_seat (Booking_objects db1) (show_pk show1) 10 = [booking1]
   \<and> book_seat_atomic 2 show1 10 0 ''11111111'' (Booking_objects db0) db1
       = (Inl (ValidationError [Seat_is_already_booked]), db1)
   \<and> book_seat 2 1 (Seat_int 10) 0 ''11111111'' db1 = (Inr (Seat_already_booked 10 1), db1)"
  using write_time_rejection_unhandled [of 10 show1 0 "Booking_objects db0" db1 2 "''11111111''"]
  by (simp add: book_seat_def book_seat_concurrent_def book_seat_atomic_def Booking_objects_create_def Booking_save_def save_defaults_def
      full_clean_def clean_fields_def Booking_clean_def validate_unique_def exclude_id_def
      generate_booking_reference_def check_user_booking_limits_def booked_for_seat_def
      booked_for_user_def get_show_def timedelta_minutes_def db0_def db1_def show1_def
      booking1_def Let_def)

section \<open>The booking cutoff\<close>

text \<open>
  C3, as amended. For a show the catalog holds, a seat number from 1 to the show's
  \<open>total_seats\<close> that no booked row takes, a caller without a booked row for the show and
  a reference not in use: \<open>book_seat\<close> called at exactly \<open>date_time - 30 minutes\<close> creates
  the booking (although \<open>Show.is_bookable\<close> is false at that instant); called one second
  earlier it creates the booking as well; called at any instant after
  \<open>date_time - 30 minutes\<close> and up to \<open>date_time\<close> it answers that booking is closed and
  leaves the ledger unchanged.
\<close>

theorem book_seat_at_cutoff:
  assumes "get_show db sid = Some sh"
    and "1 \<le> n" and "n \<le> total_seats sh"
    and "booked_for_user (Booking_objects db) usr sid = []"
    and "booked_for_seat (Booking_objects db) sid n = []"
    and "filter (\<lambda>r. booking_reference r = generate_booking_reference u) (Booking_objects db) = []"
  shows "(\<exists>b. book_seat usr sid (Seat_int n) (date_time sh - timedelta_minutes 30) u db
               = (Inr (Seat_booked b), db\<lparr>Booking_objects := Booking_objects db @ [b]\<rparr>)
            \<and> user_id b = usr \<and> show_id b = sid \<and> seat_number b = n \<and> status b = Booked)
         \<and> \<not> is_bookable sh (date_time sh - timedelta_minutes 30) (Booking_objects db)
         \<and> (\<exists>b. book_seat usr sid (Seat_int n)
                    (date_time sh - timedelta_minutes 30 - timedelta_seconds 1) u db
               = (Inr (Seat_booked b), db\<lparr>Booking_objects := Booking_objects db @ [b]\<rparr>)
            \<and> user_id b = usr \<and> show_id b = sid \<and> seat_number b = n \<and> status b = Booked)
         \<and> (date_time sh - timedelta_minutes 30 < now \<and> now \<le> date_time sh \<longrightarrow>
              book_seat usr sid (Seat_int n) now u db = (Inr Booking_closed, db)
              \<and> spec_failure Booking_closed = Some BookingWindowClosed)"
proof -
  have a: "date_time sh - timedelta_minutes 30 \<le> date_time sh - timedelta_minutes 30" by simp
  have b: "date_time sh - timedelta_minutes 30 - timedelta_seconds 1 \<le> date_time sh - timedelta_minutes 30"
    by (simp add: timedelta_seconds_def)
  have c: "book_seat usr sid (Seat_int n) now u db = (Inr Booking_closed, db)"
    if "date_time sh - timedelta_minutes 30 < now" "now \<le> date_time sh"
    using assms(1-3) that by (simp add: book_seat_def book_seat_concurrent_def)
  show ?thesis
    using book_seat_succeeds [OF assms(1-3) a assms(4-6)] book_seat_succeeds [OF assms(1-3) b assms(4-6)] c
    by (simp add: is_bookable_def)
qed

section \<open>The active flag\<close>

text \<open>
  C9. For a show with \<open>is_active = False\<close> that starts in the future and more than 30
  minutes from \<open>now\<close>, a seat number from 1 to \<open>total_seats\<close> that no booked row takes, a
  caller without a booked row for the show and a reference not in use: \<open>book_seat\<close>
  creates a booking with status booked, while \<open>Show.is_bookable\<close> is false.
\<close>

theorem inactive_show_is_booked:
  assumes "get_show db sid = Some sh"
    and "\<not> is_active sh"
    and "now < date_time sh" and "now < date_time sh - timedelta_minutes 30"
    and "1 \<le> n" and "n \<le> total_seats sh"
    and "booked_for_seat (Booking_objects db) sid n = []"
    and "booked_for_user (Booking_objects db) usr sid = []"
    and "filter (\<lambda>r. booking_reference r = generate_booking_reference u) (Booking_objects db) = []"
  shows "(\<exists>b. book_seat usr sid (Seat_int n) now u db
               = (Inr (Seat_booked b), db\<lparr>Booking_objects := Booking_objects db @ [b]\<rparr>)
            \<and> user_id b = usr \<and> show_id b = sid \<and> seat_number b = n \<and> status b = Booked)
         \<and> \<not> is_bookable sh now (Booking_objects db)"
proof -
  have a: "now \<le> date_time sh - timedelta_minutes 30" using assms(4) by simp
  show ?thesis
    using book_seat_succeeds [OF assms(1) assms(5,6) a assms(8,7,9)] assms(2)
    by (simp add: is_bookable_def)
qed

section \<open>One seat per user and show\<close>

text \<open>
  C6, as amended. If the caller has a booked row for a show of the catalog, then every
  call of \<open>book_seat\<close> for that show with a seat number from 1 to \<open>total_seats\<close>, made no
  later than \<open>date_time - 30 minutes\<close>, is answered with the seat of one of the caller's
  booked rows for the show (the failure \<open>UserAlreadyBooked\<close>). A call with an integer seat
  number outside 1 to \<open>total_seats\<close> is answered with an \<open>InvalidSeat\<close> failure at any
  time; a call with a seat number in that range is answered with \<open>BookingWindowClosed\<close>
  after \<open>date_time - 30 minutes\<close> and up to \<open>date_time\<close>, and with \<open>ShowAlreadyStarted\<close>
  after \<open>date_time\<close>. None of these calls changes the ledger.
\<close>

theorem user_already_booked:
  assumes "get_show db sid = Some sh"
    and "booked_for_user (Booking_objects db) usr sid \<noteq> []"
  shows "(1 \<le> n \<and> n \<le> total_seats sh \<and> now \<le> date_time sh - timedelta_minutes 30 \<longrightarrow>
            (\<exists>b \<in> set (Booking_objects db).
               user_id b = usr \<and> show_id b = sid \<and> status b = Booked
               \<and> book_seat usr sid (Seat_int n) now u db
                   = (Inr (Already_have_seat (seat_number b)), db)
               \<and> spec_failure (Already_have_seat (seat_number b)) = Some UserAlreadyBooked))
         \<and> (n < 1 \<or> total_seats sh < n \<longrightarrow>
            (\<exists>r. book_seat usr sid (Seat_int n) now u db = (Inr r, db)
                 \<and> spec_failure r = Some InvalidSeat))
         \<and> (1 \<le> n \<and> n \<le> total_seats sh
              \<and> date_time sh - timedelta_minutes 30 < now \<and> now \<le> date_time sh \<longrightarrow>
            book_seat usr sid (Seat_int n) now u db = (Inr Booking_closed, db)
            \<and> spec_failure Booking_closed = Some BookingWindowClosed)
         \<and> (1 \<le> n \<and> n \<le> total_seats sh \<and> date_time sh < now \<longrightarrow>
            book_seat usr sid (Seat_int n) now u db = (Inr Past_show_booking, db)
            \<and> spec_failure Past_show_booking = Some ShowAlreadyStarted)"
proof -
  have pk: "show_pk sh = sid" using assms(1) by (rule get_show_pk)
  obtain b where b: "first_qs (booked_for_user (Booking_objects db) usr sid) = Some b"
    using assms(2) first_qs_None_iff by fastforce
  then have m: "b \<in> set (booked_for_user (Booking_objects db) usr sid)" by (rule first_qs_mem)
  have held: "\<exists>b \<in> set (Booking_objects db).
               user_id b = usr \<and> show_id b = sid \<and> status b = Booked
               \<and> book_seat usr sid (Seat_int n) now u db
                   = (Inr (Already_have_seat (seat_number b)), db)
               \<and> spec_failure (Already_have_seat (seat_number b)) = Some UserAlreadyBooked"
    if "1 \<le> n" "n \<le> total_seats sh" "now \<le> date_time sh - timedelta_minutes 30"
  proof -
    have lt: "\<not> date_time sh < now" using that(3) by (simp add: timedelta_minutes_def)
    have "book_seat usr sid (Seat_int n) now u db = (Inr (Already_have_seat (seat_number b)), db)"
      using assms(1) that lt b by (simp add: book_seat_def book_seat_concurrent_def pk)
    then show ?thesis using m by (auto simp add: booked_for_user_def)
  qed
  have invalid: "\<exists>r. book_seat usr sid (Seat_int n) now u db = (Inr r, db)
                 \<and> spec_failure r = Some InvalidSeat"
    if "n < 1 \<or> total_seats sh < n"
    using assms(1) that by (auto simp add: book_seat_def book_seat_concurrent_def)
  have closed: "book_seat usr sid (Seat_int n) now u db = (Inr Booking_closed, db)"
    if "1 \<le> n" "n \<le> total_seats sh" "date_time sh - timedelta_minutes 30 < now" "now \<le> date_time sh"
    using assms(1) that by (simp add: book_seat_def book_seat_concurrent_def)
  have started: "book_seat usr sid (Seat_int n) now u db = (Inr Past_show_booking, db)"
    if "1 \<le> n" "n \<le> total_seats sh" "date_time sh < now"
    using assms(1) that by (simp add: book_seat_def book_seat_concurrent_def)
  show ?thesis using held invalid closed started by simp
qed

section \<open>Cancelling a booking\<close>

lemma get_booking_pk: "get_booking db bid = Some b \<Longrightarrow> pk b = Some bid \<and> b \<in> set (Booking_objects db)"
  by (auto simp add: get_booking_def find_Some_iff)

lemma save_defaults_cancelled:
  "pk (save_defaults (b\<lparr>status := Cancelled\<rparr>) sh now u) = pk b"
  "status (save_defaults (b\<lparr>status := Cancelled\<rparr>) sh now u) = Cancelled"
  "seat_number (save_defaults (b\<lparr>status := Cancelled\<rparr>) sh now u) = seat_number b"
  "user_id (save_defaults (b\<lparr>status := Cancelled\<rparr>) sh now u) = user_id b"
  "show_id (save_defaults (b\<lparr>status := Cancelled\<rparr>) sh now u) = show_id b"
  "cancelled_at (save_defaults (b\<lparr>status := Cancelled\<rparr>) sh now u) \<noteq> None"
  "booking_reference b \<noteq> [] \<Longrightarrow>
     booking_reference (save_defaults (b\<lparr>status := Cancelled\<rparr>) sh now u) = booking_reference b"
  by (simp_all add: save_defaults_def Let_def)

lemma cancel_booking_ok:
  assumes gb: "get_booking db bid = Some b"
    and own: "user_id b = usr" and st: "status b \<noteq> Cancelled"
    and gs: "get_show db (show_id b) = Some sh"
    and seat: "1 \<le> seat_number b" "seat_number b \<le> total_seats sh"
    and ref: "booking_reference b \<noteq> []"
      "filter (\<lambda>r. booking_reference r = booking_reference b) (exclude_id (pk b) (Booking_objects db)) = []"
    and t: "now \<le> date_time sh - timedelta_hours 2"
  shows "cancel_booking usr bid now u db =
     (Inr (Booking_cancelled (save_defaults (b\<lparr>status := Cancelled\<rparr>) sh now u)),
      db\<lparr>Booking_objects := map (\<lambda>r. if pk r = Some bid
          then save_defaults (b\<lparr>status := Cancelled\<rparr>) sh now u else r) (Booking_objects db)\<rparr>)"
proof -
  let ?b = "save_defaults (b\<lparr>status := Cancelled\<rparr>) sh now u"
  have pk: "pk b = Some bid" and mem: "b \<in> set (Booking_objects db)"
    using get_booking_pk [OF gb] by simp_all
  have ne: "filter (\<lambda>r. pk r = Some bid) (Booking_objects db) \<noteq> []"
    using pk mem by (auto simp add: filter_empty_conv)
  have lt: "now < date_time sh" "\<not> date_time sh - timedelta_hours 2 < now" "\<not> date_time sh < now"
    using t by (simp_all add: timedelta_hours_def)
  have fc: "full_clean ?b sh now (Booking_objects db) = []"
    using seat ref lt(1)
    by (simp add: full_clean_def clean_fields_def Booking_clean_def validate_unique_def
        save_defaults_cancelled)
  have iv: "\<not> integrity_violation ?b (Booking_objects db)"
    using ref by (simp add: integrity_violation_def save_defaults_cancelled)
  have ds: "db_save ?b (Booking_objects db)
      = Inr (?b, map (\<lambda>r. if pk r = Some bid then ?b else r) (Booking_objects db))"
    using iv ne pk by (simp add: db_save_def save_defaults_cancelled)
  have sv: "Booking_save (b\<lparr>status := Cancelled\<rparr>) sh now u (Booking_objects db)
      = Inr (?b, map (\<lambda>r. if pk r = Some bid then ?b else r) (Booking_objects db))"
    by (simp add: Booking_save_def fc ds)
  show ?thesis
    using gb own st gs lt by (simp add: cancel_booking_def sv)
qed

text \<open>
  C4. For a booked row of the caller whose show the catalog holds, with a seat number from
  1 to the show's \<open>total_seats\<close> and a reference no other row has: \<open>cancel_booking\<close>
  called at exactly \<open>date_time - 2 hours\<close> cancels the booking, although
  \<open>Booking.is_cancellable\<close> is false at that instant and \<open>Booking.cancel\<close> refuses; called
  one second earlier it cancels the booking as well.
\<close>

theorem cancel_at_deadline:
  assumes "get_booking db bid = Some b"
    and "user_id b = usr" and "status b = Booked"
    and "get_show db (show_id b) = Some sh"
    and "1 \<le> seat_number b" and "seat_number b \<le> total_seats sh"
    and "booking_reference b \<noteq> []"
    and "filter (\<lambda>r. booking_reference r = booking_reference b) (exclude_id (pk b) (Booking_objects db)) = []"
  shows "(\<exists>b'. fst (cancel_booking usr bid (date_time sh - timedelta_hours 2) u db)
                  = Inr (Booking_cancelled b')
               \<and> status b' = Cancelled
               \<and> cancelled_at b' \<noteq> None)
         \<and> \<not> is_cancellable b sh (date_time sh - timedelta_hours 2)
         \<and> Booking_cancel b sh (date_time sh - timedelta_hours 2) u (Booking_objects db)
             = Inl (ValidationError [Cannot_be_cancelled])
         \<and> (\<exists>b'. fst (cancel_booking usr bid (date_time sh - timedelta_hours 2 - timedelta_seconds 1) u db)
                  = Inr (Booking_cancelled b')
               \<and> status b' = Cancelled
               \<and> cancelled_at b' \<noteq> None)"
proof -
  have a: "date_time sh - timedelta_hours 2 \<le> date_time sh - timedelta_hours 2" by simp
  have b: "date_time sh - timedelta_hours 2 - timedelta_seconds 1 \<le> date_time sh - timedelta_hours 2"
    by (simp add: timedelta_seconds_def)
  have st: "status b \<noteq> Cancelled" using assms(3) by simp
  show ?thesis
    using cancel_booking_ok [OF assms(1,2) st assms(4-8) a, of u]
      cancel_booking_ok [OF assms(1,2) st assms(4-8) b, of u]
    by (simp add: is_cancellable_def Booking_cancel_def save_defaults_cancelled assms(3)
        del: not_None_eq)
qed

text \<open>
  C5. For a row of the caller with status cancelled, \<open>cancel_booking\<close> answers that the
  booking is already cancelled and leaves the ledger unchanged. For a row of the caller
  with status expired the handler has no check of the status: when the show started
  before \<open>now\<close> it answers that bookings for past shows cannot be cancelled and leaves the
  ledger unchanged; when \<open>now\<close> is no later than \<open>date_time - 2 hours\<close> (and the row has a
  seat number from 1 to \<open>total_seats\<close> and a reference no other row has) it sets the
  expired booking to cancelled. \<open>Booking.cancel\<close> refuses an expired booking at any time.
\<close>

theorem cancel_booking_not_booked:
  assumes "get_booking db bid = Some b" and "user_id b = usr"
  shows "(status b = Cancelled \<longrightarrow>
            cancel_booking usr bid now u db = (Inr Already_cancelled, db)
            \<and> spec_failure Already_cancelled = Some AlreadyCancelled)
         \<and> (status b = Expired \<and> get_show db (show_id b) = Some sh \<and> date_time sh < now \<longrightarrow>
            cancel_booking usr bid now u db = (Inr Past_show_cancel, db)
            \<and> spec_failure Past_show_cancel = Some ShowAlreadyOccurred)
         \<and> (status b = Expired \<and> get_show db (show_id b) = Some sh
              \<and> now \<le> date_time sh - timedelta_hours 2
              \<and> 1 \<le> seat_number b \<and> seat_number b \<le> total_seats sh
              \<and> booking_reference b \<noteq> []
              \<and> filter (\<lambda>r. booking_reference r = booking_reference b)
                    (exclude_id (pk b) (Booking_objects db)) = [] \<longrightarrow>
            (\<exists>b'. cancel_booking usr bid now u db
                     = (Inr (Booking_cancelled b'),
                        db\<lparr>Booking_objects :=
                             map (\<lambda>r. if pk r = Some bid then b' else r) (Booking_objects db)\<rparr>)
                  \<and> status b' = Cancelled))
         \<and> (status b = Expired \<longrightarrow>
            Booking_cancel b sh now u (Booking_objects db) = Inl (ValidationError [Cannot_be_cancelled]))"
proof -
  have "\<exists>b'. cancel_booking usr bid now u db
                     = (Inr (Booking_cancelled b'),
                        db\<lparr>Booking_objects :=
                             map (\<lambda>r. if pk r = Some bid then b' else r) (Booking_objects db)\<rparr>)
                  \<and> status b' = Cancelled"
    if "status b = Expired" "get_show db (show_id b) = Some sh"
      "now \<le> date_time sh - timedelta_hours 2"
      "1 \<le> seat_number b" "seat_number b \<le> total_seats sh" "booking_reference b \<noteq> []"
      "filter (\<lambda>r. booking_reference r = booking_reference b)
          (exclude_id (pk b) (Booking_objects db)) = []"
  proof -
    have st: "status b \<noteq> Cancelled" using that(1) by simp
    show ?thesis
      using cancel_booking_ok [OF assms st that(2,4,5,6,7,3), of u]
      by (simp add: save_defaults_cancelled)
  qed
  then show ?thesis
    using assms by (simp add: cancel_booking_def Booking_cancel_def is_cancellable_def)
qed

lemma no_response_is_AlreadyExpired: "spec_failure r \<noteq> Some AlreadyExpired"
  by (cases r) simp_all

section \<open>Creating a show\<close>

text \<open>
  C8, as amended. \<open>Show.objects.create\<close> stores no show and raises whenever the start is
  not after \<open>now\<close>, or a show of the catalog has the same screen and start, or the number
  of seats is below 1 or above 1000. \<open>ShowCreateSerializer\<close> finds the data invalid
  whenever the start is not after \<open>now\<close>, or is less than an hour after \<open>now\<close>, or a show of
  the catalog has the same screen and start, or the number of seats is below 10 or above
  1000.
\<close>

theorem show_creation_rejects:
  "(attr_date_time a \<le> now
      \<or> filter (\<lambda>s. screen_name s = attr_screen_name a \<and> date_time s = attr_date_time a) rows \<noteq> []
      \<or> attr_total_seats a < 1 \<or> 1000 < attr_total_seats a
    \<longrightarrow> (\<exists>e. Show_objects_create a now rows = Inl e))
   \<and> (attr_date_time a \<le> now
        \<or> attr_date_time a < now + timedelta_hours 1
        \<or> filter (\<lambda>s. screen_name s = attr_screen_name a \<and> date_time s = attr_date_time a) rows \<noteq> []
        \<or> attr_total_seats a < 10 \<or> 1000 < attr_total_seats a
      \<longrightarrow> is_valid a now rows \<noteq> [])"
proof (intro conjI impI)
  assume c: "attr_date_time a \<le> now
      \<or> filter (\<lambda>s. screen_name s = attr_screen_name a \<and> date_time s = attr_date_time a) rows \<noteq> []
      \<or> attr_total_seats a < 1 \<or> 1000 < attr_total_seats a"
  have "Show_clean_fields a now @ Show_clean a now rows \<noteq> []"
  proof (cases "attr_screen_name a = []")
    case True
    then show ?thesis by (simp add: Show_clean_fields_def)
  next
    case False
    then show ?thesis using c
      by (auto simp add: Show_clean_fields_def Show_clean_def)
  qed
  then have "Show_full_clean a now rows \<noteq> []"
    unfolding Show_full_clean_def by (metis append_is_Nil_conv)
  then obtain v vs where "Show_full_clean a now rows = v # vs"
    by (cases "Show_full_clean a now rows") auto
  then show "\<exists>e. Show_objects_create a now rows = Inl e"
    by (simp add: Show_objects_create_def)
next
  assume c: "attr_date_time a \<le> now
        \<or> attr_date_time a < now + timedelta_hours 1
        \<or> filter (\<lambda>s. screen_name s = attr_screen_name a \<and> date_time s = attr_date_time a) rows \<noteq> []
        \<or> attr_total_seats a < 10 \<or> 1000 < attr_total_seats a"
  show "is_valid a now rows \<noteq> []"
  proof (cases "screen_name_field (attr_screen_name a) @ date_time_field (attr_date_time a) now
           @ total_seats_field (attr_total_seats a) @ price_field (attr_price a)")
    case (Cons e es)
    then show ?thesis by (simp add: is_valid_def)
  next
    case Nil
    then have d: "date_time_field (attr_date_time a) now = []"
      and t: "total_seats_field (attr_total_seats a) = []" by simp_all
    from d have d': "\<not> attr_date_time a \<le> now" "\<not> attr_date_time a < now + timedelta_hours 1"
      by (auto simp add: date_time_field_def validate_date_time_def split: if_splits)
    from t have t': "\<not> attr_total_seats a < 10" "\<not> 1000 < attr_total_seats a"
      by (auto simp add: total_seats_field_def validate_total_seats_def split: if_splits)
    from c d' t' have "filter (\<lambda>s. screen_name s = attr_screen_name a \<and> date_time s = attr_date_time a) rows \<noteq> []"
      by blast
    then show ?thesis using Nil by (simp add: is_valid_def)
  qed
qed

section \<open>The theorems at the example data\<close>

lemmas eval_defs = book_seat_def book_seat_concurrent_def book_seat_atomic_def Booking_objects_create_def Booking_save_def
  save_defaults_def full_clean_def clean_fields_def Booking_clean_def validate_unique_def
  db_save_def integrity_violation_def exclude_id_def next_pk_def generate_booking_reference_def
  check_user_booking_limits_def booked_for_seat_def booked_for_user_def get_show_def
  get_booking_def cancel_booking_def timedelta_minutes_def timedelta_hours_def
  timedelta_seconds_def is_bookable_def is_cancellable_def Booking_cancel_def available_seats_def
  db0_def db1_def show1_def booking1_def booking1_cancelled_def booking1_expired_def
  db1_cancelled_def db1_expired_def show2_def db2_def Let_def

theorem book_seat_at_cutoff_witness:
  "get_show db0 1 = Some show1
   \<and> booked_for_user (Booking_objects db0) 1 1 = []
   \<and> booked_for_seat (Booking_objects db0) 1 10 = []
   \<and> date_time show1 - timedelta_minutes 30 = 34200000000
   \<and> fst (book_seat 1 1 (Seat_int 10) 34200000000 ''0A1B2C3D'' db0)
       = Inr (Seat_booked (booking1\<lparr>created_at := 34200000000\<rparr>))
   \<and> \<not> is_bookable show1 34200000000 (Booking_objects db0)
   \<and> fst (book_seat 1 1 (Seat_int 10) 34199000000 ''0A1B2C3D'' db0)
       = Inr (Seat_booked (booking1\<lparr>created_at := 34199000000\<rparr>))
   \<and> book_seat 1 1 (Seat_int 10) 34200000001 ''0A1B2C3D'' db0 = (Inr Booking_closed, db0)"
  using book_seat_at_cutoff [of db0 1 show1 10 1 "''0A1B2C3D''" 34200000001]
  by (simp add: eval_defs)

text \<open>
  C3 as it is written fails: at exactly thirty minutes before the example show starts,
  with seat 10 free, \<open>book_seat\<close> creates the booking; its answer is not that booking is
  closed.
\<close>

theorem book_seat_at_cutoff_counterexample:
  "get_show db0 1 = Some show1
   \<and> date_time show1 - timedelta_minutes 30 = 34200000000
   \<and> booked_for_seat (Booking_objects db0) 1 10 = []
   \<and> book_seat 1 1 (Seat_int 10) 34200000000 ''0A1B2C3D'' db0
       = (Inr (Seat_booked (booking1\<lparr>created_at := 34200000000\<rparr>)),
          db0\<lparr>Booking_objects := [booking1\<lparr>created_at := 34200000000\<rparr>]\<rparr>)
   \<and> fst (book_seat 1 1 (Seat_int 10) 34200000000 ''0A1B2C3D'' db0) \<noteq> Inr Booking_closed"
  by (simp add: eval_defs)

theorem inactive_show_is_booked_witness:
  "get_show db2 2 = Some show2 \<and> \<not> is_active show2
   \<and> booked_for_seat (Booking_objects db2) 2 7 = []
   \<and> booked_for_user (Booking_objects db2) 1 2 = []
   \<and> \<not> is_bookable show2 0 (Booking_objects db2)
   \<and> book_seat 1 2 (Seat_int 7) 0 ''0A1B2C3D'' db2
       = (Inr (Seat_booked (booking1\<lparr>show_id := 2, seat_number := 7\<rparr>)),
          db2\<lparr>Booking_objects := [booking1\<lparr>show_id := 2, seat_number := 7\<rparr>]\<rparr>)"
  using inactive_show_is_booked [of db2 2 show2 0 7 1 "''0A1B2C3D''"]
  by (simp add: eval_defs)

theorem user_already_booked_witness:
  "get_show db1 1 = Some show1
   \<and> booked_for_user (Booking_objects db1) 1 1 = [booking1]
   \<and> book_seat 1 1 (Seat_int 11) 0 ''11111111'' db1 = (Inr (Already_have_seat 10), db1)
   \<and> book_seat 1 1 (Seat_int 101) 0 ''11111111'' db1 = (Inr (Seat_number_exceeds 100), db1)
   \<and> book_seat 1 1 (Seat_int 11) 36000000000 ''11111111'' db1 = (Inr Booking_closed, db1)
   \<and> book_seat 1 1 (Seat_int 11) 36000000001 ''11111111'' db1 = (Inr Past_show_booking, db1)"
  using user_already_booked [of db1 1 show1 1 11 0 "''11111111''"]
    user_already_booked [of db1 1 show1 1 101 0 "''11111111''"]
    user_already_booked [of db1 1 show1 1 11 36000000000 "''11111111''"]
    user_already_booked [of db1 1 show1 1 11 36000000001 "''11111111''"]
  by (simp add: eval_defs)

text \<open>
  C6 as it is written fails: the holder of seat 10, whose booking is still booked, asks
  for seat 11 ten minutes before the show and is told that booking is closed; asking for
  seat number 0 the holder is told that the number must be positive.
\<close>

theorem user_already_booked_counterexample:
  "booked_for_user (Booking_objects db1) 1 1 = [booking1]
   \<and> book_seat 1 1 (Seat_int 11) 35400000000 ''11111111'' db1 = (Inr Booking_closed, db1)
   \<and> spec_failure Booking_closed = Some BookingWindowClosed
   \<and> book_seat 1 1 (Seat_int 0) 0 ''11111111'' db1 = (Inr Seat_number_not_positive, db1)
   \<and> spec_failure Seat_number_not_positive = Some InvalidSeat"
  by (simp add: eval_defs)

theorem cancel_at_deadline_witness:
  "get_booking db1 1 = Some booking1 \<and> get_show db1 (show_id booking1) = Some show1
   \<and> status booking1 = Booked
   \<and> date_time show1 - timedelta_hours 2 = 28800000000
   \<and> cancel_booking 1 1 28800000000 ''11111111'' db1
       = (Inr (Booking_cancelled (booking1\<lparr>status := Cancelled, cancelled_at := Some 28800000000\<rparr>)),
          db1\<lparr>Booking_objects := [booking1\<lparr>status := Cancelled, cancelled_at := Some 28800000000\<rparr>]\<rparr>)
   \<and> \<not> is_cancellable booking1 show1 28800000000
   \<and> Booking_cancel booking1 show1 28800000000 ''11111111'' (Booking_objects db1)
       = Inl (ValidationError [Cannot_be_cancelled])
   \<and> fst (cancel_booking 1 1 28799000000 ''11111111'' db1)
       = Inr (Booking_cancelled (booking1\<lparr>status := Cancelled, cancelled_at := Some 28799000000\<rparr>))"
  using cancel_at_deadline [of db1 1 booking1 1 show1 "''11111111''"]
  by (simp add: eval_defs)

text \<open>
  A cancelled booking; the booking the sweep expired, an hour after the show started;
  and an expired booking of a show that is still ten hours away, which the handler
  cancels.
\<close>

theorem cancel_booking_not_booked_witness:
  "get_booking db1_cancelled 1 = Some booking1_cancelled \<and> status booking1_cancelled = Cancelled
   \<and> cancel_booking 1 1 2000000 ''11111111'' db1_cancelled = (Inr Already_cancelled, db1_cancelled)
   \<and> snd (cleanup_expired_bookings 39600000000 db1) = db1_expired
   \<and> get_booking db1_expired 1 = Some booking1_expired \<and> status booking1_expired = Expired
   \<and> get_show db1_expired (show_id booking1_expired) = Some show1
   \<and> cancel_booking 1 1 39600000000 ''11111111'' db1_expired = (Inr Past_show_cancel, db1_expired)
   \<and> spec_failure Past_show_cancel \<noteq> Some AlreadyExpired
   \<and> cancel_booking 1 1 0 ''11111111'' db1_expired
       = (Inr (Booking_cancelled (booking1\<lparr>status := Cancelled, cancelled_at := Some 0\<rparr>)),
          db1\<lparr>Booking_objects := [booking1\<lparr>status := Cancelled, cancelled_at := Some 0\<rparr>]\<rparr>)
   \<and> Booking_cancel booking1_expired show1 0 ''11111111'' (Booking_objects db1_expired)
       = Inl (ValidationError [Cannot_be_cancelled])"
  using cancel_booking_not_booked [of db1_cancelled 1 booking1_cancelled 1 2000000 "''11111111''" show1]
    cancel_booking_not_booked [of db1_expired 1 booking1_expired 1 0 "''11111111''" show1]
  by (simp add: eval_defs cleanup_expired_bookings_def expired_bookings_def)

lemmas show_defs = is_valid_def screen_name_field_def date_time_field_def total_seats_field_def
  price_field_def validate_date_time_def validate_total_seats_def
  validate_price_def validate_def Show_objects_create_def Show_full_clean_def Show_clean_fields_def
  Show_clean_def Show_validate_unique_def next_show_pk_def isspace_def timedelta_hours_def
  attrs1_def db0_def show1_def Let_def

text \<open>
  Data that meet every rule are valid and the show is stored. Data that break one rule:
  a start at \<open>now\<close>, the screen and start of the first show, no seat, 1001 seats, a start
  half an hour ahead, nine seats.
\<close>

lemma show_creation_accepts:
  "is_valid attrs1 0 (Show_objects db0) = []
   \<and> Show_objects_create attrs1 0 (Show_objects db0)
     = Inr (\<lparr>show_pk = 2, movie_id = 1, screen_name = ''Screen 1'', date_time = 72000000000,
             total_seats = 50, price = 25000, is_active = True\<rparr>,
            [show1, \<lparr>show_pk = 2, movie_id = 1, screen_name = ''Screen 1'',
                     date_time = 72000000000, total_seats = 50, price = 25000, is_active = True\<rparr>])"
  by (simp add: show_defs)

theorem show_creation_rejects_witness:
  "Show_objects_create (attrs1\<lparr>attr_date_time := 0\<rparr>) 0 (Show_objects db0)
     = Inl (ValidationError [Date_time_not_future, Date_time_not_future])
   \<and> Show_objects_create (attrs1\<lparr>attr_date_time := 36000000000\<rparr>) 0 (Show_objects db0)
     = Inl (ValidationError [Screen_is_already_booked])
   \<and> Show_objects_create (attrs1\<lparr>attr_total_seats := 0\<rparr>) 0 (Show_objects db0)
     = Inl (ValidationError [Total_seats_below_1])
   \<and> Show_objects_create (attrs1\<lparr>attr_total_seats := 1001\<rparr>) 0 (Show_objects db0)
     = Inl (ValidationError [Total_seats_above_1000])
   \<and> is_valid (attrs1\<lparr>attr_date_time := 0\<rparr>) 0 (Show_objects db0) = [Date_and_time_in_future]
   \<and> is_valid (attrs1\<lparr>attr_date_time := 1800000000\<rparr>) 0 (Show_objects db0)
     = [Must_be_hour_in_advance]
   \<and> is_valid (attrs1\<lparr>attr_date_time := 36000000000\<rparr>) 0 (Show_objects db0)
     = [Must_make_unique_set]
   \<and> is_valid (attrs1\<lparr>attr_total_seats := 9\<rparr>) 0 (Show_objects db0) = [At_least_10_seats]
   \<and> is_valid (attrs1\<lparr>attr_total_seats := 1001\<rparr>) 0 (Show_objects db0) = [At_most_1000]"
  using show_creation_rejects [of "attrs1\<lparr>attr_date_time := 0\<rparr>" 0 "Show_objects db0"]
    show_creation_rejects [of "attrs1\<lparr>attr_total_seats := 9\<rparr>" 0 "Show_objects db0"]
  by (simp add: show_defs)

text \<open>
  C8 as it is written fails: \<open>Show.objects.create\<close> stores a show of five seats that
  starts one microsecond after \<open>now\<close>, data the serializer finds invalid.
\<close>

theorem show_creation_counterexample:
  "Show_objects_create (attrs1\<lparr>attr_date_time := 1, attr_total_seats := 5\<rparr>) 0 (Show_objects db0)
     = Inr (\<lparr>show_pk = 2, movie_id = 1, screen_name = ''Screen 1'', date_time = 1,
             total_seats = 5, price = 25000, is_active = True\<rparr>,
            [show1, \<lparr>show_pk = 2, movie_id = 1, screen_name = ''Screen 1'', date_time = 1,
                     total_seats = 5, price = 25000, is_active = True\<rparr>])
   \<and> is_valid (attrs1\<lparr>attr_date_time := 1, attr_total_seats := 5\<rparr>) 0 (Show_objects db0)
     = [Must_be_hour_in_advance, At_least_10_seats]"
  by (simp add: show_defs)

text \<open>
  C10 as it is written fails: after five of the six parallel requests committed, the
  count of the sixth, whose first query ran on the empty ledger, is five, and its answer
  is the error of the five-seat limit.
\<close>

lemma db5_rows:
  "map (\<lambda>r. (pk r, user_id r, show_id r, seat_number r, status r, booking_reference r))
       (Booking_objects db5)
     = [(Some 1, 1, 1, 1, Booked, ''BK00000001''), (Some 2, 1, 1, 2, Booked, ''BK00000002''),
        (Some 3, 1, 1, 3, Booked, ''BK00000003''), (Some 4, 1, 1, 4, Booked, ''BK00000004''),
        (Some 5, 1, 1, 5, Booked, ''BK00000005'')]"
  by (simp add: db5_def parallel_request_def eval_defs)

theorem limit_branch_counterexample:
  "length (booked_for_user (Booking_objects db5) 1 1) = 5
   \<and> book_seat_concurrent 1 1 (Seat_int 6) 0 ''00000006''
        [] (Booking_objects db5) (Booking_objects db5) db5
       = (Inr Max_seats_per_user, db5)
   \<and> spec_failure Max_seats_per_user = Some UserLimitExceeded"
  by (simp add: db5_def parallel_request_def eval_defs)

end
